theory Spec2Isabelle
  imports Complex_Main "HOL-Library.AList"
begin

section \<open>Data model of \<open>main.py\<close>\<close>

text \<open>
  \<open>HexTile\<close> is the class of lines 7-26. Python's unbounded integers are \<open>int\<close>; the
  floating-point attributes are idealised as \<open>real\<close>; the two categorical attributes are
  strings. The coordinate attributes \<open>q\<close>, \<open>r\<close>, \<open>s\<close> of the source are the fields
  \<open>tile_q\<close>, \<open>tile_r\<close>, \<open>tile_s\<close> (a record field is a constant, and the one-letter names
  are needed for variables).
\<close>

record HexTile =
  tile_q :: int
  tile_r :: int
  tile_s :: int
  elevation :: real
  temperature :: real
  natural_resources :: string
  agriculture :: string

text \<open>
  The module \<open>random\<close> is a process-wide generator outside the repository. Its state is
  a value of an arbitrary type \<open>'g\<close>, and its two operations used by the source take the
  state and return the draw with the next state.
\<close>

record 'g random_source =
  uniform :: "real \<Rightarrow> real \<Rightarrow> 'g \<Rightarrow> real \<times> 'g"
  choice :: "string list \<Rightarrow> 'g \<Rightarrow> string \<times> 'g"

text \<open>\<open>HexTile.__init__\<close> (lines 8-21): four draws, in the order of the source.\<close>

definition HexTile_init :: "'g random_source \<Rightarrow> int \<Rightarrow> int \<Rightarrow> 'g \<Rightarrow> HexTile \<times> 'g" where
  "HexTile_init rnd q r g0 =
     (case uniform rnd 0 100 g0 of (e, g1) \<Rightarrow>
      case uniform rnd (- 30) 50 g1 of (t, g2) \<Rightarrow>
      case choice rnd [''None'', ''Iron'', ''Gold'', ''Coal'', ''Oil''] g2 of (n, g3) \<Rightarrow>
      case choice rnd [''None'', ''Low'', ''Medium'', ''High''] g3 of (a, g4) \<Rightarrow>
        (\<lparr>tile_q = q, tile_r = r, tile_s = - q - r, elevation = e, temperature = t,
          natural_resources = n, agriculture = a\<rparr>, g4))"

text \<open>
  A Python \<open>dict\<close> keyed by the tuple \<open>(q, r)\<close>: an association list in insertion order.
  The assignment \<open>grid[(q, r)] = v\<close> is \<open>AList.update\<close>, which replaces the value of a key
  that is present and appends a new key at the end, as the dictionary does.
\<close>

type_synonym grid_dict = "((int \<times> int) \<times> HexTile) list"

record HexGrid =
  radius :: int
  grid :: grid_dict

text \<open>
  \<open>HexGrid.generate_grid\<close> (lines 39-49). \<open>range(a, b + 1)\<close> is the list \<open>[a..b]\<close>.
  \<open>generate_row\<close> is the inner loop for one \<open>q\<close>, \<open>generate_grid\<close> the outer loop; both
  thread the dictionary built so far and the state of the generator.
\<close>

definition generate_row ::
  "'g random_source \<Rightarrow> int \<Rightarrow> int \<Rightarrow> grid_dict \<times> 'g \<Rightarrow> grid_dict \<times> 'g" where
  "generate_row rnd rad q st =
     fold (\<lambda>r (gr, g). case HexTile_init rnd q r g of (t, g') \<Rightarrow> (AList.update (q, r) t gr, g'))
       [max (- rad) (- q - rad) .. min rad (- q + rad)] st"

definition generate_grid :: "'g random_source \<Rightarrow> int \<Rightarrow> 'g \<Rightarrow> grid_dict \<times> 'g" where
  "generate_grid rnd rad g = fold (generate_row rnd rad) [- rad .. rad] ([], g)"

text \<open>\<open>HexGrid.__init__\<close> (lines 30-37).\<close>

definition HexGrid_init :: "'g random_source \<Rightarrow> int \<Rightarrow> 'g \<Rightarrow> HexGrid \<times> 'g" where
  "HexGrid_init rnd rad g =
     (case generate_grid rnd rad g of (gr, g') \<Rightarrow> (\<lparr>radius = rad, grid = gr\<rparr>, g'))"

text \<open>\<open>HexGrid.get_tile\<close> (lines 51-59): \<open>dict.get\<close>, with \<open>None\<close> for a missing key.\<close>

definition get_tile :: "HexGrid \<Rightarrow> int \<Rightarrow> int \<Rightarrow> HexTile option" where
  "get_tile hg q r = map_of (grid hg) (q, r)"

text \<open>\<open>HexGrid.hex_to_latlon\<close> (lines 83-94): integer arithmetic, \<open>scale = 10\<close>.\<close>

definition hex_to_latlon :: "int \<Rightarrow> int \<Rightarrow> int \<times> int" where
  "hex_to_latlon q r = (let scale = 10; lon = q * scale; lat = r * scale in (lon, lat))"

text \<open>
  \<open>HexGrid.simulate_tectonics\<close> (lines 61-81). The call
  \<open>transform(proj_wgs84, proj_cartesian, lon, lat)\<close> belongs to the library \<open>pyproj\<close>, which
  is not part of the repository: the projection is the parameter \<open>transform\<close>, a function
  from longitude and latitude to planar \<open>(x, y)\<close>. \<open>simulate_tile\<close> is the body of the loop
  for one item of the dictionary, with its two assignments to \<open>tile.elevation\<close>. Every
  tile object is referenced by one key only, so mutating the tiles in place while
  iterating over \<open>self.grid.items()\<close> is a map over the items.
\<close>

definition simulate_tile ::
  "(real \<Rightarrow> real \<Rightarrow> real \<times> real) \<Rightarrow> (int \<times> int) \<times> HexTile \<Rightarrow> (int \<times> int) \<times> HexTile" where
  "simulate_tile transform item =
     (case item of ((q, r), tile) \<Rightarrow>
      case hex_to_latlon q r of (lon, lat) \<Rightarrow>
      case transform (real_of_int lon) (real_of_int lat) of (x, y) \<Rightarrow>
        (let tile1 = tile\<lparr>elevation := 1000 - sqrt (x ^ 2 + y ^ 2) / 10\<rparr>;
             tile2 = tile1\<lparr>elevation := max 0 (elevation tile1)\<rparr>
         in ((q, r), tile2)))"

definition simulate_tectonics :: "(real \<Rightarrow> real \<Rightarrow> real \<times> real) \<Rightarrow> HexGrid \<Rightarrow> HexGrid" where
  "simulate_tectonics transform hg = hg\<lparr>grid := map (simulate_tile transform) (grid hg)\<rparr>"

text \<open>
  \<open>HexGrid.visual_grid\<close> (lines 103-118). Standard output is a string to which every
  \<open>print\<close> appends; \<open>print()\<close> appends the newline. \<open>visual_row\<close> is the body of the loop
  over \<open>r\<close>. The test \<open>(q, r) in self.grid\<close> is membership among the keys. The locals
  \<open>min_q\<close> and \<open>max_q\<close> of the source are never read and are left out.
\<close>

definition visual_row :: "HexGrid \<Rightarrow> int \<Rightarrow> string \<Rightarrow> string" where
  "visual_row hg r out =
     (let out1 = out @ replicate (nat (radius hg - r)) (CHR '' '');
          out2 = fold (\<lambda>q acc. if (q, r) \<in> set (map fst (grid hg)) then acc @ ''o '' else acc @ ''  '')
                   [max (- radius hg) (- r - radius hg) .. min (radius hg) (- r + radius hg)] out1
      in out2 @ [CHR 0x0A])"

definition visual_grid :: "HexGrid \<Rightarrow> string" where
  "visual_grid hg = fold (visual_row hg) [- radius hg .. radius hg] []"

text \<open>
  \<open>HexGrid.hex_to_pixel\<close> (lines 137-148); \<open>/\<close> is Python 3's true division. The
  parameter \<open>size\<close> of the source is \<open>hex_size\<close>, its name at the call site (\<open>size\<close> is a
  constant of HOL).
\<close>

definition hex_to_pixel :: "int \<Rightarrow> int \<Rightarrow> real \<Rightarrow> real \<times> real" where
  "hex_to_pixel q r hex_size =
     (let x = hex_size * (3 / 2 * real_of_int q);
          y = hex_size * (sqrt 3 * (real_of_int r + real_of_int q / 2))
      in (x, y))"

text \<open>\<open>HexGrid.get_color_by_elevation\<close> (lines 167-179).\<close>

definition get_color_by_elevation :: "real \<Rightarrow> string" where
  "get_color_by_elevation e =
     (if e > 800 then ''#8B0000''
      else if e > 400 then ''#FFA500''
      else ''#00FF00'')"

section \<open>Notions of the specification\<close>

text \<open>The hexagonal region of radius \<open>R\<close>: all \<open>(q, r)\<close> with \<open>max(|q|, |r|, |-q-r|) \<le> R\<close>.\<close>

definition hex_region :: "int \<Rightarrow> (int \<times> int) set" where
  "hex_region R = {(q, r). max \<bar>q\<bar> (max \<bar>r\<bar> \<bar>- q - r\<bar>) \<le> R}"

text \<open>The keys of one column \<open>q\<close> of the region, in the order in which the loops visit them.\<close>

definition row_keys :: "int \<Rightarrow> int \<Rightarrow> (int \<times> int) list" where
  "row_keys rad q = map (Pair q) [max (- rad) (- q - rad) .. min rad (- q + rad)]"

text \<open>Every tile stores the coordinates of its key, and \<open>s = -q-r\<close>.\<close>

definition coords_ok :: "grid_dict \<Rightarrow> bool" where
  "coords_ok gr =
     (\<forall>(k, t) \<in> set gr. tile_q t = fst k \<and> tile_r t = snd k \<and> tile_s t = - fst k - snd k)"

text \<open>Two tiles that agree on every attribute but the elevation.\<close>

definition same_but_elevation :: "HexTile \<Rightarrow> HexTile \<Rightarrow> bool" where
  "same_but_elevation t t' =
     (tile_q t' = tile_q t \<and> tile_r t' = tile_r t \<and> tile_s t' = tile_s t \<and>
      temperature t' = temperature t \<and> natural_resources t' = natural_resources t \<and>
      agriculture t' = agriculture t)"

text \<open>
  The elevation the specification gives the tile at \<open>(q, r)\<close>: \<open>max(0, 1000 - d/10)\<close> with
  \<open>d\<close> the Euclidean norm of the projection of \<open>(lon, lat) = (10 q, 10 r)\<close>.
\<close>

definition spec_elevation :: "(real \<Rightarrow> real \<Rightarrow> real \<times> real) \<Rightarrow> int \<Rightarrow> int \<Rightarrow> real" where
  "spec_elevation transform q r =
     (let p = transform (10 * real_of_int q) (10 * real_of_int r);
          d = sqrt ((fst p)\<^sup>2 + (snd p)\<^sup>2)
      in max 0 (1000 - d / 10))"

text \<open>
  The visual view in the words of the specification, with the number of space characters
  per unit of indentation as the parameter \<open>w\<close>: for each \<open>r\<close> an indentation of
  \<open>w * (radius - r)\<close> spaces, a two-character marker for each valid \<open>q\<close>, and a newline.
\<close>

definition visual_line :: "nat \<Rightarrow> HexGrid \<Rightarrow> int \<Rightarrow> string" where
  "visual_line w hg r =
     replicate (w * nat (radius hg - r)) (CHR '' '') @
     concat (map (\<lambda>q. if (q, r) \<in> set (map fst (grid hg)) then ''o '' else ''  '')
       [max (- radius hg) (- r - radius hg) .. min (radius hg) (- r + radius hg)]) @
     [CHR 0x0A]"

definition visual_view :: "nat \<Rightarrow> HexGrid \<Rightarrow> string" where
  "visual_view w hg = concat (map (visual_line w hg) [- radius hg .. radius hg])"

text \<open>
  A deterministic stand-in for the generator, for the closed examples: the state counts
  the draws, \<open>uniform\<close> returns the lower bound and \<open>choice\<close> cycles through the list.
\<close>

definition counter_source :: "nat random_source" where
  "counter_source =
     \<lparr>uniform = (\<lambda>a b g. (a, Suc g)), choice = (\<lambda>xs g. (xs ! (g mod length xs), Suc g))\<rparr>"

text \<open>A stand-in for the projection, linear in both coordinates and fixing the origin.\<close>

definition flat_transform :: "real \<Rightarrow> real \<Rightarrow> real \<times> real" where
  "flat_transform lon lat = (111000 * lon, 111000 * lat)"

section \<open>Auxiliary lemmas\<close>

subsection \<open>The keys and tiles written by the two loops of \<open>generate_grid\<close>\<close>

lemma HexTile_init_fields:
  "tile_q (fst (HexTile_init rnd q r g)) = q \<and> tile_r (fst (HexTile_init rnd q r g)) = r
   \<and> tile_s (fst (HexTile_init rnd q r g)) = - q - r"
  by (simp add: HexTile_init_def split: prod.splits)

lemma set_update_cases:
  "x \<in> set (AList.update k v al) \<Longrightarrow> x = (k, v) \<or> x \<in> set al"
  by (induction al) (auto split: if_splits)

lemma row_fold_keys:
  "distinct rs \<Longrightarrow> (\<forall>r \<in> set rs. (q, r) \<notin> fst ` set gr) \<Longrightarrow>
   map fst (fst (fold (\<lambda>r (gr, g). case HexTile_init rnd q r g of (t, g') \<Rightarrow> (AList.update (q, r) t gr, g')) rs (gr, g)))
     = map fst gr @ map (Pair q) rs"
proof (induction rs arbitrary: gr g)
  case Nil
  then show ?case by simp
next
  case (Cons r rs)
  obtain t g' where tg: "HexTile_init rnd q r g = (t, g')" by (cases "HexTile_init rnd q r g")
  have k: "map fst (AList.update (q, r) t gr) = map fst gr @ [(q, r)]"
    using Cons.prems(2) by (simp add: update_keys)
  have "\<forall>r' \<in> set rs. (q, r') \<notin> fst ` set (AList.update (q, r) t gr)"
  proof
    fix r' assume "r' \<in> set rs"
    then have "r' \<noteq> r" "(q, r') \<notin> fst ` set gr" using Cons.prems by auto
    then show "(q, r') \<notin> fst ` set (AList.update (q, r) t gr)"
      using k by (metis (no_types, lifting) Pair_inject Un_iff empty_iff empty_set insert_iff list.simps(15) set_append set_map)
  qed
  moreover have "distinct rs" using Cons.prems by simp
  ultimately show ?case using Cons.IH[of "AList.update (q, r) t gr" g'] tg k by simp
qed

lemma row_fold_coords:
  "coords_ok gr \<Longrightarrow>
   coords_ok (fst (fold (\<lambda>r (gr, g). case HexTile_init rnd q r g of (t, g') \<Rightarrow> (AList.update (q, r) t gr, g')) rs (gr, g)))"
proof (induction rs arbitrary: gr g)
  case Nil
  then show ?case by simp
next
  case (Cons r rs)
  obtain t g' where tg: "HexTile_init rnd q r g = (t, g')" by (cases "HexTile_init rnd q r g")
  have t: "tile_q t = q \<and> tile_r t = r \<and> tile_s t = - q - r"
    using HexTile_init_fields[of rnd q r g] tg by simp
  have "coords_ok (AList.update (q, r) t gr)"
    unfolding coords_ok_def
  proof (intro ballI)
    fix x assume "x \<in> set (AList.update (q, r) t gr)"
    then have "x = ((q, r), t) \<or> x \<in> set gr"
      by (rule set_update_cases)
    then show "case x of (k, t) \<Rightarrow> tile_q t = fst k \<and> tile_r t = snd k \<and> tile_s t = - fst k - snd k"
      using Cons.prems t unfolding coords_ok_def by auto
  qed
  then show ?case using Cons.IH[of "AList.update (q, r) t gr" g'] tg by simp
qed

lemma generate_row_keys:
  "q \<notin> fst ` fst ` set gr \<Longrightarrow>
   map fst (fst (generate_row rnd rad q (gr, g))) = map fst gr @ row_keys rad q"
  unfolding generate_row_def row_keys_def
  by (rule row_fold_keys) (auto simp: image_iff)

lemma generate_row_coords:
  "coords_ok (fst st) \<Longrightarrow> coords_ok (fst (generate_row rnd rad q st))"
  unfolding generate_row_def using row_fold_coords[where gr="fst st" and g="snd st"] by simp

lemma outer_fold_keys:
  "distinct qs \<Longrightarrow> (\<forall>q \<in> set qs. q \<notin> fst ` fst ` set (fst st)) \<Longrightarrow>
   map fst (fst (fold (generate_row rnd rad) qs st)) = map fst (fst st) @ concat (map (row_keys rad) qs)"
proof (induction qs arbitrary: st)
  case Nil
  then show ?case by simp
next
  case (Cons q qs)
  obtain gr g where st: "st = (gr, g)" by (cases st)
  let ?st' = "generate_row rnd rad q st"
  have k: "map fst (fst ?st') = map fst gr @ row_keys rad q"
    using Cons.prems st generate_row_keys[where q=q and gr=gr and g=g] by simp
  have "\<forall>q' \<in> set qs. q' \<notin> fst ` fst ` set (fst ?st')"
  proof
    fix q' assume q': "q' \<in> set qs"
    then have ne: "q' \<noteq> q" and old: "q' \<notin> fst ` fst ` set gr" using Cons.prems st by auto
    have "fst ` set (fst ?st') = set (map fst gr @ row_keys rad q)"
      using k by (metis set_map)
    then have "fst ` fst ` set (fst ?st') = fst ` fst ` set gr \<union> fst ` set (row_keys rad q)"
      by (simp add: image_Un image_image)
    moreover have "fst ` set (row_keys rad q) \<subseteq> {q}" by (auto simp: row_keys_def)
    ultimately show "q' \<notin> fst ` fst ` set (fst ?st')" using ne old by auto
  qed
  moreover have "distinct qs" using Cons.prems by simp
  ultimately show ?case using Cons.IH[of ?st'] k st by simp
qed

lemma generate_grid_keys:
  "map fst (fst (generate_grid rnd rad g)) = concat (map (row_keys rad) [- rad .. rad])"
  unfolding generate_grid_def using outer_fold_keys[where qs="[- rad .. rad]" and st="([], g)"] by simp

lemma outer_fold_coords:
  "coords_ok (fst st) \<Longrightarrow> coords_ok (fst (fold (generate_row rnd rad) qs st))"
  by (induction qs arbitrary: st) (simp_all add: generate_row_coords)

lemma generate_grid_coords: "coords_ok (fst (generate_grid rnd rad g))"
  unfolding generate_grid_def by (rule outer_fold_coords) (simp add: coords_ok_def)

lemma row_keys_fst: "k \<in> set (row_keys rad q) \<Longrightarrow> fst k = q"
  by (auto simp: row_keys_def)

lemma distinct_row_keys: "distinct (row_keys rad q)"
  by (simp add: row_keys_def distinct_map inj_on_def)

lemma distinct_rows: "distinct qs \<Longrightarrow> distinct (concat (map (row_keys rad) qs))"
proof (induction qs)
  case Nil
  then show ?case by simp
next
  case (Cons q qs)
  have "set (row_keys rad q) \<inter> set (concat (map (row_keys rad) qs)) = {}"
  proof (rule ccontr)
    assume "set (row_keys rad q) \<inter> set (concat (map (row_keys rad) qs)) \<noteq> {}"
    then obtain k where a: "k \<in> set (row_keys rad q)" and b: "k \<in> set (concat (map (row_keys rad) qs))"
      by blast
    from b obtain q' where "q' \<in> set qs" "k \<in> set (row_keys rad q')" by auto
    then have "fst k = q'" "fst k = q" using a row_keys_fst by blast+
    then show False using \<open>q' \<in> set qs\<close> Cons.prems by simp
  qed
  then show ?case using Cons distinct_row_keys by simp
qed

lemma row_keys_mem:
  "(q, r) \<in> set (row_keys rad q') \<longleftrightarrow>
     q = q' \<and> max (- rad) (- q' - rad) \<le> r \<and> r \<le> min rad (- q' + rad)"
  unfolding row_keys_def by (simp add: image_iff)

lemma set_rows:
  "set (concat (map (row_keys rad) [- rad .. rad])) =
   {(q, r). max \<bar>q\<bar> (max \<bar>r\<bar> \<bar>- q - r\<bar>) \<le> rad}"
proof (rule set_eqI)
  fix k :: "int \<times> int"
  obtain q r where k: "k = (q, r)" by (cases k)
  have "k \<in> set (concat (map (row_keys rad) [- rad .. rad])) \<longleftrightarrow>
        (\<exists>q'. - rad \<le> q' \<and> q' \<le> rad \<and> (q, r) \<in> set (row_keys rad q'))"
    unfolding k by auto
  also have "\<dots> \<longleftrightarrow>
        - rad \<le> q \<and> q \<le> rad \<and> max (- rad) (- q - rad) \<le> r \<and> r \<le> min rad (- q + rad)"
    unfolding row_keys_mem by blast
  also have "\<dots> \<longleftrightarrow> max \<bar>q\<bar> (max \<bar>r\<bar> \<bar>- q - r\<bar>) \<le> rad"
    by linarith
  finally show "k \<in> set (concat (map (row_keys rad) [- rad .. rad])) \<longleftrightarrow>
        k \<in> {(q, r). max \<bar>q\<bar> (max \<bar>r\<bar> \<bar>- q - r\<bar>) \<le> rad}"
    by (simp add: k)
qed

lemma int_sum_list_map: "int (sum_list (map f xs)) = sum_list (map (\<lambda>x. int (f x)) xs)"
  by (induction xs) simp_all

lemma length_row_keys:
  "- rad \<le> q \<Longrightarrow> q \<le> rad \<Longrightarrow> int (length (row_keys rad q)) = 2 * rad + 1 - \<bar>q\<bar>"
  by (simp add: row_keys_def)

lemma sum_abs_sym: "(\<Sum>q \<in> {- int n .. int n}. \<bar>q\<bar>) = int n * (int n + 1)"
proof (induction n)
  case 0
  then show ?case by simp
next
  case (Suc n)
  have "{- int (Suc n) .. int (Suc n)} = insert (- int (Suc n)) (insert (int (Suc n)) {- int n .. int n})"
    by auto
  then show ?case using Suc by (simp add: algebra_simps)
qed

lemma length_rows:
  assumes "0 \<le> rad"
  shows "int (length (concat (map (row_keys rad) [- rad .. rad]))) = 3 * rad * rad + 3 * rad + 1"
proof -
  obtain n where n: "rad = int n" using assms nonneg_int_cases by blast
  have "int (length (concat (map (row_keys rad) [- rad .. rad])))
        = (\<Sum>q \<leftarrow> [- rad .. rad]. int (length (row_keys rad q)))"
    by (simp add: length_concat comp_def int_sum_list_map)
  also have "\<dots> = (\<Sum>q \<leftarrow> [- rad .. rad]. 2 * rad + 1 - \<bar>q\<bar>)"
    by (rule arg_cong[where f=sum_list], rule map_cong) (simp_all add: length_row_keys)
  also have "\<dots> = (\<Sum>q \<in> {- rad .. rad}. 2 * rad + 1 - \<bar>q\<bar>)"
    by (simp add: sum_list_distinct_conv_sum_set)
  also have "\<dots> = (2 * rad + 1) * (2 * rad + 1) - (\<Sum>q \<in> {- rad .. rad}. \<bar>q\<bar>)"
    using assms by (simp add: sum_subtractf)
  also have "\<dots> = 3 * rad * rad + 3 * rad + 1"
    using sum_abs_sym[of n] n by (simp add: algebra_simps)
  finally show ?thesis .
qed

lemma coords_okD:
  "coords_ok gr \<Longrightarrow> ((q, r), t) \<in> set gr \<Longrightarrow>
     tile_q t = q \<and> tile_r t = r \<and> tile_s t = - q - r"
  unfolding coords_ok_def by (drule bspec, assumption) simp

subsection \<open>The constructor, the simulation and the visual view\<close>

lemma grid_HexGrid_init: "grid (fst (HexGrid_init rnd rad g)) = fst (generate_grid rnd rad g)"
  by (simp add: HexGrid_init_def split: prod.splits)

lemma radius_HexGrid_init: "radius (fst (HexGrid_init rnd rad g)) = rad"
  by (simp add: HexGrid_init_def split: prod.splits)

lemma generate_grid_distinct: "distinct (map fst (fst (generate_grid rnd rad g)))"
  by (simp add: generate_grid_keys distinct_rows)

lemma generate_grid_region: "set (map fst (fst (generate_grid rnd rad g))) = hex_region rad"
  unfolding generate_grid_keys hex_region_def by (rule set_rows)

lemma generate_grid_length:
  "0 \<le> rad \<Longrightarrow> int (length (fst (generate_grid rnd rad g))) = 3 * rad\<^sup>2 + 3 * rad + 1"
proof -
  assume r: "0 \<le> rad"
  have "length (fst (generate_grid rnd rad g)) = length (map fst (fst (generate_grid rnd rad g)))"
    by simp
  also have "\<dots> = length (concat (map (row_keys rad) [- rad .. rad]))"
    by (simp only: generate_grid_keys)
  finally show ?thesis using length_rows[OF r] by (simp add: power2_eq_square)
qed

lemma fst_simulate_tile: "fst (simulate_tile tr item) = fst item"
  by (simp add: simulate_tile_def Let_def split: prod.splits)

lemma elevation_simulate_tile:
  "elevation (snd (simulate_tile tr ((q, r), t))) = spec_elevation tr q r"
  by (simp add: simulate_tile_def spec_elevation_def hex_to_latlon_def Let_def mult.commute
      split: prod.splits)

lemma same_but_elevation_simulate_tile:
  "same_but_elevation t (snd (simulate_tile tr (k, t)))"
  by (simp add: simulate_tile_def same_but_elevation_def Let_def split: prod.splits)

lemma simulate_tile_idem: "simulate_tile tr (simulate_tile tr item) = simulate_tile tr item"
  by (simp add: simulate_tile_def Let_def split: prod.splits)

lemma map_of_simulate:
  "map_of (map (simulate_tile tr) gr) k = map_option (\<lambda>t. snd (simulate_tile tr (k, t))) (map_of gr k)"
proof (induction gr)
  case Nil
  then show ?case by simp
next
  case (Cons item gr)
  obtain k' t' where item: "item = (k', t')" by (cases item)
  have "fst (simulate_tile tr (k', t')) = k'" by (simp add: fst_simulate_tile)
  then obtain t'' where s: "simulate_tile tr (k', t') = (k', t'')"
    by (cases "simulate_tile tr (k', t')") simp
  show ?case using Cons.IH by (simp add: item s)
qed

lemma simulate_elevation_stored:
  "((q, r), t) \<in> set (grid (simulate_tectonics tr hg)) \<Longrightarrow>
     elevation t = spec_elevation tr q r \<and> 0 \<le> elevation t"
proof -
  assume "((q, r), t) \<in> set (grid (simulate_tectonics tr hg))"
  then obtain item where i: "item \<in> set (grid hg)" and e: "((q, r), t) = simulate_tile tr item"
    by (auto simp: simulate_tectonics_def)
  obtain t0 where "item = ((q, r), t0)"
    using e fst_simulate_tile[of tr item] by (cases item) (metis fst_conv)
  then have "t = snd (simulate_tile tr ((q, r), t0))" using e by (metis snd_conv)
  then have "elevation t = spec_elevation tr q r" by (simp add: elevation_simulate_tile)
  moreover have "0 \<le> spec_elevation tr q r" by (simp add: spec_elevation_def Let_def)
  ultimately show ?thesis by simp
qed

lemma get_tile_simulate:
  "get_tile (simulate_tectonics tr hg) q r =
     map_option (\<lambda>t. snd (simulate_tile tr ((q, r), t))) (get_tile hg q r)"
  by (simp add: get_tile_def simulate_tectonics_def map_of_simulate)

lemma keys_simulate: "map fst (grid (simulate_tectonics tr hg)) = map fst (grid hg)"
  by (simp add: simulate_tectonics_def fst_simulate_tile comp_def)

lemma fold_append_concat: "fold (\<lambda>x acc. acc @ f x) xs out = out @ concat (map f xs)"
  by (induction xs arbitrary: out) simp_all

lemma visual_row_line: "visual_row hg r out = out @ visual_line 1 hg r"
proof -
  have "(\<lambda>q acc. if (q, r) \<in> set (map fst (grid hg)) then acc @ ''o '' else acc @ ''  '')
      = (\<lambda>q acc. acc @ (if (q, r) \<in> set (map fst (grid hg)) then ''o '' else ''  ''))"
    by (auto simp: fun_eq_iff)
  then show ?thesis
    unfolding visual_row_def visual_line_def Let_def by (simp add: fold_append_concat)
qed

lemma fold_visual_row: "fold (visual_row hg) rs out = out @ concat (map (visual_line 1 hg) rs)"
  by (induction rs arbitrary: out) (simp_all add: visual_row_line)

lemma visual_grid_view: "visual_grid hg = visual_view 1 hg"
  by (simp add: visual_grid_def visual_view_def fold_visual_row)

lemma generate_grid_negative: "rad < 0 \<Longrightarrow> generate_grid rnd rad g = ([], g)"
  by (simp add: generate_grid_def)

subsection \<open>The grid of radius 1 under the counting generator\<close>

lemma radius_one_corner:
  "get_tile (fst (HexGrid_init counter_source 1 0)) 1 (- 1) =
     Some \<lparr>tile_q = 1, tile_r = - 1, tile_s = 0, elevation = 0, temperature = - 30,
        natural_resources = ''Gold'', agriculture = ''High''\<rparr>"
  by (simp add: get_tile_def HexGrid_init_def generate_grid_def generate_row_def HexTile_init_def
      counter_source_def upto.simps)

lemma sqrt_2500: "sqrt 2500 = 50"
  using real_sqrt_abs[of 50] by simp

lemma radius_one_keys:
  "map fst (grid (fst (HexGrid_init counter_source 1 0))) =
     [(- 1, 0), (- 1, 1), (0, - 1), (0, 0), (0, 1), (1, - 1), (1, 0)]"
  by (simp add: grid_HexGrid_init generate_grid_keys row_keys_def upto.simps)

section \<open>The claims\<close>

text \<open>
  Claim C1. For every radius \<open>R \<ge> 0\<close> the grid built by \<open>generate_grid\<close> holds exactly
  \<open>3R\<^sup>2 + 3R + 1\<close> tiles, its keys are exactly the hexagonal region of radius \<open>R\<close>, no key
  occurs twice, and every tile stores the \<open>q\<close> and \<open>r\<close> of its key and \<open>s = -q-r\<close>, so that
  \<open>q + r + s = 0\<close>.
\<close>

theorem generate_grid_hexagon:
  assumes "0 \<le> rad"
  shows "int (length (grid (fst (HexGrid_init rnd rad g)))) = 3 * rad\<^sup>2 + 3 * rad + 1 \<and>
         set (map fst (grid (fst (HexGrid_init rnd rad g)))) = hex_region rad \<and>
         distinct (map fst (grid (fst (HexGrid_init rnd rad g)))) \<and>
         (\<forall>((q, r), t) \<in> set (grid (fst (HexGrid_init rnd rad g))).
            tile_q t = q \<and> tile_r t = r \<and> tile_s t = - q - r \<and> q + r + tile_s t = 0)"
proof (intro conjI)
  show "int (length (grid (fst (HexGrid_init rnd rad g)))) = 3 * rad\<^sup>2 + 3 * rad + 1"
    unfolding grid_HexGrid_init by (rule generate_grid_length[OF assms])
  show "set (map fst (grid (fst (HexGrid_init rnd rad g)))) = hex_region rad"
    unfolding grid_HexGrid_init by (rule generate_grid_region)
  show "distinct (map fst (grid (fst (HexGrid_init rnd rad g))))"
    unfolding grid_HexGrid_init by (rule generate_grid_distinct)
  show "\<forall>((q, r), t) \<in> set (grid (fst (HexGrid_init rnd rad g))).
            tile_q t = q \<and> tile_r t = r \<and> tile_s t = - q - r \<and> q + r + tile_s t = 0"
  proof clarify
    fix q r t assume i: "((q, r), t) \<in> set (grid (fst (HexGrid_init rnd rad g)))"
    have m: "((q, r), t) \<in> set (fst (generate_grid rnd rad g))"
      using i unfolding grid_HexGrid_init .
    have "tile_q t = q \<and> tile_r t = r \<and> tile_s t = - q - r"
      by (rule coords_okD[OF generate_grid_coords m])
    then show "tile_q t = q \<and> tile_r t = r \<and> tile_s t = - q - r \<and> q + r + tile_s t = 0"
      by simp
  qed
qed

text \<open>At radius 1 the grid has seven tiles.\<close>

theorem generate_grid_hexagon_witness:
  "(0::int) \<le> 1 \<and> int (length (grid (fst (HexGrid_init counter_source 1 0)))) = 7 \<and>
   set (map fst (grid (fst (HexGrid_init counter_source 1 0)))) = hex_region 1 \<and>
   distinct (map fst (grid (fst (HexGrid_init counter_source 1 0))))"
proof -
  have h: "(0::int) \<le> 1" by simp
  have "int (length (grid (fst (HexGrid_init counter_source 1 0)))) = 3 * 1\<^sup>2 + 3 * 1 + 1"
    and "set (map fst (grid (fst (HexGrid_init counter_source 1 0)))) = hex_region 1"
    and "distinct (map fst (grid (fst (HexGrid_init counter_source 1 0))))"
    using generate_grid_hexagon[OF h, of counter_source 0] by blast+
  then show ?thesis by simp
qed

text \<open>
  Claim C2. After \<open>simulate_tectonics\<close> the grid has the keys it had, and the tile under
  every key \<open>(q, r)\<close> has the elevation \<open>max(0, 1000 - d/10)\<close>, with \<open>d\<close> the Euclidean norm
  of the projection of \<open>(lon, lat) = (10 q, 10 r)\<close>: \<open>get_tile\<close> finds such a tile wherever it
  found one before, and every tile stored in the simulated grid is one. In particular no
  elevation is negative. The projection is any function, and the floating-point operations
  are those of the reals.
\<close>

theorem simulate_elevation:
  "(get_tile hg q r = Some t \<longrightarrow>
      (\<exists>t'. get_tile (simulate_tectonics tr hg) q r = Some t' \<and>
            elevation t' = spec_elevation tr q r \<and> 0 \<le> elevation t')) \<and>
   (((q, r), t) \<in> set (grid (simulate_tectonics tr hg)) \<longrightarrow>
      elevation t = spec_elevation tr q r \<and> 0 \<le> elevation t) \<and>
   map fst (grid (simulate_tectonics tr hg)) = map fst (grid hg)"
proof (intro conjI impI)
  assume g: "get_tile hg q r = Some t"
  let ?t' = "snd (simulate_tile tr ((q, r), t))"
  have "get_tile (simulate_tectonics tr hg) q r = Some ?t'"
    by (simp add: get_tile_simulate g)
  moreover have "elevation ?t' = spec_elevation tr q r" by (rule elevation_simulate_tile)
  moreover have "0 \<le> spec_elevation tr q r" by (simp add: spec_elevation_def Let_def)
  ultimately show "\<exists>t'. get_tile (simulate_tectonics tr hg) q r = Some t' \<and>
            elevation t' = spec_elevation tr q r \<and> 0 \<le> elevation t'"
    by simp
next
  assume m: "((q, r), t) \<in> set (grid (simulate_tectonics tr hg))"
  show "elevation t = spec_elevation tr q r" using simulate_elevation_stored[OF m] by simp
  show "0 \<le> elevation t" using simulate_elevation_stored[OF m] by simp
next
  show "map fst (grid (simulate_tectonics tr hg)) = map fst (grid hg)" by (rule keys_simulate)
qed

text \<open>
  The tile at \<open>(1, -1)\<close> of the grid of radius 1, under the projection
  \<open>(lon, lat) \<mapsto> (3 lon, 4 lat)\<close>: the distance is 50 and the elevation 995.
\<close>

theorem simulate_elevation_witness:
  "get_tile (fst (HexGrid_init counter_source 1 0)) 1 (- 1) =
     Some \<lparr>tile_q = 1, tile_r = - 1, tile_s = 0, elevation = 0, temperature = - 30,
        natural_resources = ''Gold'', agriculture = ''High''\<rparr> \<and>
   (\<exists>t'. get_tile (simulate_tectonics (\<lambda>lon lat. (3 * lon, 4 * lat))
            (fst (HexGrid_init counter_source 1 0))) 1 (- 1) = Some t' \<and>
         elevation t' = 995 \<and> 0 \<le> elevation t') \<and>
   spec_elevation (\<lambda>lon lat. (3 * lon, 4 * lat)) 1 (- 1) = 995"
proof -
  have s: "spec_elevation (\<lambda>lon lat. (3 * lon, 4 * lat)) 1 (- 1) = 995"
    by (simp add: spec_elevation_def Let_def sqrt_2500)
  show ?thesis
    using radius_one_corner s
      simulate_elevation[where hg = "fst (HexGrid_init counter_source 1 0)" and q = 1 and r = "- 1"
        and tr = "\<lambda>lon lat. (3 * lon, 4 * lat)"
        and t = "\<lparr>tile_q = 1, tile_r = - 1, tile_s = 0, elevation = 0, temperature = - 30,
        natural_resources = ''Gold'', agriculture = ''High''\<rparr>"]
    by simp
qed

text \<open>
  Claim C3. When the projection maps \<open>(0, 0)\<close> to the planar \<open>(0, 0)\<close>, as the
  azimuthal-equidistant projection centred at the origin does, the tile at \<open>(0, 0)\<close> of a
  grid of radius \<open>R \<ge> 0\<close> has elevation exactly 1000 after the simulation.
\<close>

theorem simulate_origin:
  assumes "tr 0 0 = (0, 0)" and "0 \<le> rad"
  shows "\<exists>t. get_tile (simulate_tectonics tr (fst (HexGrid_init rnd rad g))) 0 0 = Some t \<and>
             elevation t = 1000"
proof -
  have "(0, 0) \<in> hex_region rad" using assms(2) by (simp add: hex_region_def)
  then have "(0, 0) \<in> set (map fst (fst (generate_grid rnd rad g)))"
    by (simp only: generate_grid_region)
  then obtain t0 where t0: "map_of (fst (generate_grid rnd rad g)) (0, 0) = Some t0"
    by (metis map_of_eq_None_iff not_Some_eq set_map)
  have "get_tile (simulate_tectonics tr (fst (HexGrid_init rnd rad g))) 0 0
        = Some (snd (simulate_tile tr ((0, 0), t0)))"
    by (simp add: get_tile_def simulate_tectonics_def map_of_simulate grid_HexGrid_init t0)
  moreover have "elevation (snd (simulate_tile tr ((0, 0), t0))) = 1000"
    by (simp add: elevation_simulate_tile spec_elevation_def assms(1))
  ultimately show ?thesis by blast
qed

text \<open>The grid of radius 1 under the linear projection.\<close>

theorem simulate_origin_witness:
  "flat_transform 0 0 = (0, 0) \<and> (0::int) \<le> 1 \<and>
   (\<exists>t. get_tile (simulate_tectonics flat_transform (fst (HexGrid_init counter_source 1 0))) 0 0 = Some t \<and>
        elevation t = 1000)"
proof -
  have a: "flat_transform 0 0 = (0, 0)" by (simp add: flat_transform_def)
  have b: "(0::int) \<le> 1" by simp
  show ?thesis
    using a b simulate_origin[where tr = flat_transform and rad = 1 and rnd = counter_source and g = 0]
    by simp
qed

text \<open>
  Claim C4. On a generated grid, \<open>get_tile q r\<close> returns a tile exactly when that tile is
  stored under the key \<open>(q, r)\<close>, and for a coordinate outside the hexagonal region it
  returns \<open>None\<close>; \<open>get_tile\<close> is a total function with no error result.
\<close>

theorem get_tile_lookup:
  "(get_tile (fst (HexGrid_init rnd rad g)) q r = Some t \<longleftrightarrow>
      ((q, r), t) \<in> set (grid (fst (HexGrid_init rnd rad g)))) \<and>
   ((q, r) \<notin> hex_region rad \<longrightarrow> get_tile (fst (HexGrid_init rnd rad g)) q r = None)"
proof -
  let ?gr = "fst (generate_grid rnd rad g)"
  have d: "distinct (map fst ?gr)" by (rule generate_grid_distinct)
  have "map_of ?gr (q, r) = Some t \<longleftrightarrow> ((q, r), t) \<in> set ?gr"
    using d by (auto dest: map_of_SomeD)
  moreover have "(q, r) \<notin> hex_region rad \<longrightarrow> map_of ?gr (q, r) = None"
    using generate_grid_region[of rnd rad g] by (metis map_of_eq_None_iff set_map)
  ultimately show ?thesis by (simp add: get_tile_def grid_HexGrid_init)
qed

text \<open>The coordinate \<open>(2, 0)\<close> lies outside the region of radius 1.\<close>

theorem get_tile_lookup_witness:
  "(2, 0) \<notin> hex_region 1 \<and> get_tile (fst (HexGrid_init counter_source 1 0)) 2 0 = None \<and>
   (\<exists>t. ((1, - 1), t) \<in> set (grid (fst (HexGrid_init counter_source 1 0))) \<and>
        get_tile (fst (HexGrid_init counter_source 1 0)) 1 (- 1) = Some t)"
proof -
  have a: "(2, 0) \<notin> hex_region 1" by (simp add: hex_region_def)
  have "(1, - 1) \<in> set (map fst (grid (fst (HexGrid_init counter_source 1 0))))"
    by (simp add: radius_one_keys)
  then obtain t where t: "((1, - 1), t) \<in> set (grid (fst (HexGrid_init counter_source 1 0)))"
    by auto
  then have "get_tile (fst (HexGrid_init counter_source 1 0)) 1 (- 1) = Some t"
    using get_tile_lookup[of counter_source 1 0 1 "- 1" t] by simp
  then show ?thesis using a t get_tile_lookup[of counter_source 1 0 2 0] by auto
qed

text \<open>
  Claim C5. The colour of an elevation \<open>e\<close> is dark red \<open>#8B0000\<close> when \<open>e > 800\<close>,
  otherwise orange \<open>#FFA500\<close> when \<open>e > 400\<close>, otherwise green \<open>#00FF00\<close>; so 900 is dark red,
  800 and 500 are orange, 400 and 100 are green.
\<close>

theorem color_thresholds:
  "(e > 800 \<longrightarrow> get_color_by_elevation e = ''#8B0000'') \<and>
   (\<not> e > 800 \<and> e > 400 \<longrightarrow> get_color_by_elevation e = ''#FFA500'') \<and>
   (\<not> e > 800 \<and> \<not> e > 400 \<longrightarrow> get_color_by_elevation e = ''#00FF00'') \<and>
   get_color_by_elevation 900 = ''#8B0000'' \<and>
   get_color_by_elevation 800 = ''#FFA500'' \<and>
   get_color_by_elevation 500 = ''#FFA500'' \<and>
   get_color_by_elevation 400 = ''#00FF00'' \<and>
   get_color_by_elevation 100 = ''#00FF00''"
  by (simp add: get_color_by_elevation_def)

text \<open>One elevation in each of the three bands, two of them on a threshold.\<close>

theorem color_thresholds_witness:
  "(801::real) > 800 \<and> get_color_by_elevation 801 = ''#8B0000'' \<and>
   \<not> (800::real) > 800 \<and> (800::real) > 400 \<and> get_color_by_elevation 800 = ''#FFA500'' \<and>
   \<not> (400::real) > 400 \<and> get_color_by_elevation 400 = ''#00FF00''"
  using color_thresholds[of 801] color_thresholds[of 800] color_thresholds[of 400] by simp

text \<open>
  Claim C6, as amended. The centre of the hexagon at \<open>(q, r)\<close> is
  \<open>x = size * 1.5 * q\<close> and \<open>y = size * sqrt 3 * (r + q/2)\<close>; for \<open>q = 1\<close>, \<open>r = 0\<close>,
  \<open>size = 20\<close> this is \<open>x = 30\<close> and \<open>y = 10 * sqrt 3\<close>.
\<close>

theorem hex_to_pixel_formula:
  "hex_to_pixel q r sz = (sz * 1.5 * real_of_int q, sz * sqrt 3 * (real_of_int r + real_of_int q / 2)) \<and>
   hex_to_pixel 1 0 20 = (30, 10 * sqrt 3)"
  by (simp add: hex_to_pixel_def Let_def)

text \<open>
  Claim C6, as stated, gives \<open>y = 20 * sqrt 3\<close> for \<open>q = 1\<close>, \<open>r = 0\<close>, \<open>size = 20\<close>; the
  function returns half of that, since \<open>r + q/2 = 1/2\<close>.
\<close>

theorem hex_to_pixel_example_counterexample:
  "hex_to_pixel 1 0 20 \<noteq> (30, 20 * sqrt 3)"
  by (simp add: hex_to_pixel_def Let_def)

text \<open>
  Claim C7, as amended. The text printed by \<open>visual_grid\<close> is, for each \<open>r\<close> from
  \<open>-radius\<close> to \<open>radius\<close>, an indentation of \<open>radius - r\<close> single space characters, then for
  each valid \<open>q\<close> of the row the two characters \<open>o\<close> and space when \<open>(q, r)\<close> is a key of the
  grid and two spaces otherwise, then a newline.
\<close>

theorem visual_grid_single_spaces: "visual_grid hg = visual_view 1 hg"
  by (rule visual_grid_view)

text \<open>The three lines printed for the grid of radius 1.\<close>

theorem visual_grid_single_spaces_witness:
  "visual_grid (fst (HexGrid_init counter_source 1 0)) =
     ''  o o '' @ [CHR 0x0A] @ '' o o o '' @ [CHR 0x0A] @ ''o o '' @ [CHR 0x0A]"
  using visual_grid_single_spaces[of "fst (HexGrid_init counter_source 1 0)"]
  by (simp add: visual_view_def visual_line_def radius_HexGrid_init radius_one_keys upto.simps
      eval_nat_numeral)

text \<open>
  Claim C7, as stated, indents by \<open>radius - r\<close> pairs of spaces. For the grid of radius 1
  the first line printed starts with two spaces, not four.
\<close>

theorem visual_grid_space_pairs_counterexample:
  "visual_grid (fst (HexGrid_init counter_source 1 0)) \<noteq>
     visual_view 2 (fst (HexGrid_init counter_source 1 0))"
  by (simp add: visual_grid_view visual_view_def visual_line_def radius_HexGrid_init
      radius_one_keys upto.simps eval_nat_numeral)

text \<open>
  Claim C8. \<open>simulate_tectonics\<close> leaves the radius and the keys of the grid, in their
  order, as they are, and each tile keeps its \<open>q\<close>, \<open>r\<close>, \<open>s\<close>, temperature, natural
  resource and agriculture: only the elevation is assigned.
\<close>

theorem simulate_frame:
  "radius (simulate_tectonics tr hg) = radius hg \<and>
   map fst (grid (simulate_tectonics tr hg)) = map fst (grid hg) \<and>
   list_all2 (\<lambda>(k, t) (k', t'). k' = k \<and> same_but_elevation t t')
     (grid hg) (grid (simulate_tectonics tr hg))"
proof -
  have "list_all2 (\<lambda>(k, t) (k', t'). k' = k \<and> same_but_elevation t t')
     gr (map (simulate_tile tr) gr)" for gr
  proof (induction gr)
    case Nil
    then show ?case by simp
  next
    case (Cons item gr)
    obtain k t where item: "item = (k, t)" by (cases item)
    obtain k' t' where s: "simulate_tile tr (k, t) = (k', t')" by (cases "simulate_tile tr (k, t)")
    have "k' = k" using fst_simulate_tile[of tr "(k, t)"] s by simp
    moreover have "same_but_elevation t t'"
      using same_but_elevation_simulate_tile[of t tr k] s by simp
    ultimately show ?case using Cons.IH by (simp add: item s)
  qed
  then show ?thesis by (simp add: simulate_tectonics_def fst_simulate_tile comp_def)
qed

text \<open>
  Claim C9. \<open>simulate_tectonics\<close> is idempotent: the new elevation depends on the key of
  the tile only, so a second run leaves the grid of the first run as it is.
\<close>

theorem simulate_idempotent:
  "simulate_tectonics tr (simulate_tectonics tr hg) = simulate_tectonics tr hg"
  by (simp add: simulate_tectonics_def simulate_tile_idem comp_def)

text \<open>
  Claim C10. For a negative radius the constructor returns, without an error and without
  a draw from the generator, a grid with no tile, and \<open>get_tile\<close> returns \<open>None\<close> on it
  for every coordinate.
\<close>

theorem negative_radius_empty:
  "rad < 0 \<Longrightarrow> HexGrid_init rnd rad g = (\<lparr>radius = rad, grid = []\<rparr>, g) \<and>
     length (grid (fst (HexGrid_init rnd rad g))) = 0 \<and>
     get_tile (fst (HexGrid_init rnd rad g)) q r = None"
  by (simp add: HexGrid_init_def generate_grid_negative get_tile_def)

text \<open>Radius \<open>-1\<close>.\<close>

theorem negative_radius_empty_witness:
  "(- 1 :: int) < 0 \<and>
   HexGrid_init counter_source (- 1) (0::nat) = (\<lparr>radius = - 1, grid = []\<rparr>, 0) \<and>
   get_tile (fst (HexGrid_init counter_source (- 1) (0::nat))) 0 0 = None"
proof -
  have a: "(- 1 :: int) < 0" by simp
  show ?thesis using a negative_radius_empty[OF a, of counter_source 0 0 0] by (simp add: get_tile_def)
qed

end
